theory Spec2Isabelle
  imports Main
begin

section \<open>JSON values and TypeScript type expressions\<close>

text \<open>
  The repository consists of two generated TypeScript declaration files: the message and
  response shapes of the pool contract (\<^verbatim>\<open>InfinityPool.types.ts\<close>) and of the
  swap router contract. The declarations describe JSON values, so the model has two parts:
  the JSON values themselves, and the type expressions the declarations are written in,
  with the relation "value \<open>j\<close> is assignable to type \<open>t\<close>".

  A TypeScript \<^verbatim>\<open>number\<close> is an IEEE-754 double. No statement below looks inside
  a number, so the payload of \<open>JNum\<close> is a type parameter.
\<close>

datatype 'n json =
    JNull
  | JBool bool
  | JNum 'n
  | JStr string
  | JArr "'n json list"
  | JObj "(string \<times> 'n json) list"

text \<open>
  A property declared \<^verbatim>\<open>name: T\<close> is \<open>Required\<close>, one declared
  \<^verbatim>\<open>name?: T\<close> is \<open>Optional\<close>.
\<close>

datatype presence = Required | Optional

datatype ty =
    TString
  | TNumber
  | TBoolean
  | TNull
  | TLit string
  | TArray ty
  | TTuple "ty list"
  | TUnion "ty list"
  | TObject "(string \<times> presence \<times> ty) list"

text \<open>
  Reading a property of an object; any other value has no properties. An object is the
  list of its properties as parsed, a key being looked up at its first entry.
\<close>

fun field :: "'n json \<Rightarrow> string \<Rightarrow> 'n json option" where
  "field (JObj kvs) k = map_of kvs k"
| "field _ k = None"

text \<open>
  Assignability, as TypeScript defines it for these type expressions:
  \<^item> a string literal type is inhabited by that one string;
  \<^item> \<^verbatim>\<open>T[]\<close> by the arrays whose elements all have type \<open>T\<close>;
  \<^item> a tuple type by the arrays of exactly that length, componentwise;
  \<^item> a union by the values of any of its members;
  \<^item> an object type by the objects in which every required property is present with its
    type and every optional property is absent or has its type. Object types are open:
    properties the type does not mention are not looked at.

  The declarations contain no recursive type, so a type name stands for its definition
  and the relation is defined by recursion on the type expression.
\<close>

function has_type :: "'n json \<Rightarrow> ty \<Rightarrow> bool" where
  "has_type j TString = (case j of JStr s \<Rightarrow> True | _ \<Rightarrow> False)"
| "has_type j TNumber = (case j of JNum n \<Rightarrow> True | _ \<Rightarrow> False)"
| "has_type j TBoolean = (case j of JBool b \<Rightarrow> True | _ \<Rightarrow> False)"
| "has_type j TNull = (case j of JNull \<Rightarrow> True | _ \<Rightarrow> False)"
| "has_type j (TLit l) = (case j of JStr s \<Rightarrow> s = l | _ \<Rightarrow> False)"
| "has_type j (TArray t) =
     (case j of JArr es \<Rightarrow> list_all (\<lambda>e. has_type e t) es | _ \<Rightarrow> False)"
| "has_type j (TTuple ts) =
     (case j of
        JArr es \<Rightarrow> length es = length ts \<and> list_all (\<lambda>(e, t). has_type e t) (zip es ts)
      | _ \<Rightarrow> False)"
| "has_type j (TUnion ts) = list_ex (\<lambda>t. has_type j t) ts"
| "has_type j (TObject fs) =
     (case j of
        JObj kvs \<Rightarrow>
          list_all
            (\<lambda>(k, p, t). case map_of kvs k of None \<Rightarrow> p = Optional | Some v \<Rightarrow> has_type v t)
            fs
      | _ \<Rightarrow> False)"
  by pat_completeness auto
termination
  by (relation "measure (\<lambda>(j, t). size t)")
     (auto simp: less_Suc_eq_le size_list_estimation' dest!: set_zip_rightD)

text \<open>The properties an object type declares, and the declaration of one of them.\<close>

fun declared_keys :: "ty \<Rightarrow> string list" where
  "declared_keys (TObject fs) = map fst fs"
| "declared_keys _ = []"

fun declared :: "ty \<Rightarrow> string \<Rightarrow> (presence \<times> ty) option" where
  "declared (TObject fs) k = map_of fs k"
| "declared _ k = None"

text \<open>The members of a union type.\<close>

fun members :: "ty \<Rightarrow> ty list" where
  "members (TUnion ts) = ts"
| "members t = [t]"

text \<open>
  \<^verbatim>\<open>name?: T | null\<close>, the form every optional property of both files has.
\<close>

definition nullable :: "ty \<Rightarrow> ty" where
  "nullable t = TUnion [t, TNull]"


section \<open>The pool contract: \<^verbatim>\<open>InfinityPool.types.ts\<close>\<close>

definition Addr :: ty where
  "Addr = TString"

definition Config :: ty where
  "Config = TObject
     [(''denom'', Required, TString),
      (''developer'', Optional, nullable Addr),
      (''marketplace_addr'', Required, Addr)]"

definition ConfigResponse :: ty where
  "ConfigResponse = TObject [(''config'', Required, Config)]"

definition InstantiateMsg :: ty where
  "InstantiateMsg = TObject
     [(''denom'', Required, TString),
      (''developer'', Optional, nullable TString),
      (''marketplace_addr'', Required, TString)]"

definition Uint128 :: ty where
  "Uint128 = TString"

definition NftSwap :: ty where
  "NftSwap = TObject
     [(''nft_token_id'', Required, TString),
      (''token_amount'', Required, Uint128)]"

definition BondingCurve :: ty where
  "BondingCurve = TUnion [TLit ''linear'', TLit ''exponential'', TLit ''constant_product'']"

definition Decimal :: ty where
  "Decimal = TString"

definition PoolType :: ty where
  "PoolType = TUnion [TLit ''token'', TLit ''nft'', TLit ''trade'']"

definition PoolInfo :: ty where
  "PoolInfo = TObject
     [(''asset_recipient'', Optional, nullable Addr),
      (''bonding_curve'', Required, BondingCurve),
      (''collection'', Required, Addr),
      (''delta'', Required, Uint128),
      (''finders_fee_percent'', Required, Decimal),
      (''pool_type'', Required, PoolType),
      (''reinvest_nfts'', Required, TBoolean),
      (''reinvest_tokens'', Required, TBoolean),
      (''spot_price'', Required, Uint128),
      (''swap_fee_percent'', Required, Decimal)]"

definition PoolNftSwap :: ty where
  "PoolNftSwap = TObject
     [(''nft_swaps'', Required, TArray NftSwap),
      (''pool_id'', Required, TNumber)]"

definition PoolQuote :: ty where
  "PoolQuote = TObject
     [(''collection'', Required, Addr),
      (''id'', Required, TNumber),
      (''quote_price'', Required, Uint128)]"

definition PoolQuoteResponse :: ty where
  "PoolQuoteResponse = TObject [(''pool_quotes'', Required, TArray PoolQuote)]"

definition Pool :: ty where
  "Pool = TObject
     [(''asset_recipient'', Optional, nullable Addr),
      (''bonding_curve'', Required, BondingCurve),
      (''collection'', Required, Addr),
      (''delta'', Required, Uint128),
      (''finders_fee_percent'', Required, Decimal),
      (''id'', Required, TNumber),
      (''is_active'', Required, TBoolean),
      (''nft_token_ids'', Required, TArray TString),
      (''owner'', Required, Addr),
      (''pool_type'', Required, PoolType),
      (''reinvest_nfts'', Required, TBoolean),
      (''reinvest_tokens'', Required, TBoolean),
      (''spot_price'', Required, Uint128),
      (''swap_fee_percent'', Required, Decimal),
      (''total_tokens'', Required, Uint128)]"

definition PoolsByIdResponse :: ty where
  "PoolsByIdResponse = TObject
     [(''pools'', Required, TArray (TTuple [TNumber, TUnion [Pool, TNull]]))]"

definition PoolsResponse :: ty where
  "PoolsResponse = TObject [(''pools'', Required, TArray Pool)]"

definition QueryOptionsForTupleOfUint128AndUint64 :: ty where
  "QueryOptionsForTupleOfUint128AndUint64 = TObject
     [(''descending'', Optional, nullable TBoolean),
      (''limit'', Optional, nullable TNumber),
      (''start_after'', Optional, nullable (TTuple [Uint128, TNumber]))]"

definition QueryOptionsForUint64 :: ty where
  "QueryOptionsForUint64 = TObject
     [(''descending'', Optional, nullable TBoolean),
      (''limit'', Optional, nullable TNumber),
      (''start_after'', Optional, nullable TNumber)]"

definition Uint64 :: ty where
  "Uint64 = TString"

definition Timestamp :: ty where
  "Timestamp = Uint64"

definition SwapParams :: ty where
  "SwapParams = TObject
     [(''deadline'', Required, Timestamp),
      (''robust'', Required, TBoolean)]"

definition TransactionType :: ty where
  "TransactionType = TUnion [TLit ''sell'', TLit ''buy'']"

definition TokenPayment :: ty where
  "TokenPayment = TObject
     [(''address'', Required, TString),
      (''amount'', Required, Uint128)]"

definition NftPayment :: ty where
  "NftPayment = TObject
     [(''address'', Required, TString),
      (''nft_token_id'', Required, TString)]"

definition Swap :: ty where
  "Swap = TObject
     [(''finder_payment'', Optional, nullable TokenPayment),
      (''network_fee'', Required, Uint128),
      (''nft_payment'', Optional, nullable NftPayment),
      (''pool_id'', Required, TNumber),
      (''royalty_payment'', Optional, nullable TokenPayment),
      (''seller_payment'', Optional, nullable TokenPayment),
      (''spot_price'', Required, Uint128),
      (''transaction_type'', Required, TransactionType)]"

definition SwapResponse :: ty where
  "SwapResponse = TObject [(''swaps'', Required, TArray Swap)]"


section \<open>The router contract\<close>

text \<open>
  The second file declares \<^verbatim>\<open>InstantiateMsg\<close>, \<^verbatim>\<open>Uint128\<close> and
  \<^verbatim>\<open>Addr\<close> again; here they carry the suffix \<open>_router\<close>. The two members of
  \<^verbatim>\<open>ExecuteMsg\<close> and of \<^verbatim>\<open>QueryMsg\<close> wrap an anonymous object type, named
  here after the key that wraps it.
\<close>

definition InstantiateMsg_router :: ty where
  "InstantiateMsg_router = TObject [(''infinity_global'', Required, TString)]"

definition NftForTokensSource :: ty where
  "NftForTokensSource = TLit ''infinity''"

definition Uint128_router :: ty where
  "Uint128_router = TString"

definition TokensForNftSource :: ty where
  "TokensForNftSource = TLit ''infinity''"

definition SellOrder :: ty where
  "SellOrder = TObject
     [(''input_token_id'', Required, TString),
      (''min_output'', Required, Uint128_router)]"

definition SwapParamsForString :: ty where
  "SwapParamsForString = TObject
     [(''asset_recipient'', Optional, nullable TString),
      (''robust'', Optional, nullable TBoolean)]"

definition swap_nfts_for_tokens :: ty where
  "swap_nfts_for_tokens = TObject
     [(''collection'', Required, TString),
      (''denom'', Required, TString),
      (''filter_sources'', Optional, nullable (TArray NftForTokensSource)),
      (''sell_orders'', Required, TArray SellOrder),
      (''swap_params'', Optional, nullable SwapParamsForString)]"

definition swap_tokens_for_nfts :: ty where
  "swap_tokens_for_nfts = TObject
     [(''collection'', Required, TString),
      (''denom'', Required, TString),
      (''filter_sources'', Optional, nullable (TArray TokensForNftSource)),
      (''max_inputs'', Required, TArray Uint128_router),
      (''swap_params'', Optional, nullable SwapParamsForString)]"

definition ExecuteMsg :: ty where
  "ExecuteMsg = TUnion
     [TObject [(''swap_nfts_for_tokens'', Required, swap_nfts_for_tokens)],
      TObject [(''swap_tokens_for_nfts'', Required, swap_tokens_for_nfts)]]"

definition nfts_for_tokens :: ty where
  "nfts_for_tokens = TObject
     [(''collection'', Required, TString),
      (''denom'', Required, TString),
      (''filter_sources'', Optional, nullable (TArray NftForTokensSource)),
      (''limit'', Required, TNumber)]"

definition tokens_for_nfts :: ty where
  "tokens_for_nfts = TObject
     [(''collection'', Required, TString),
      (''denom'', Required, TString),
      (''filter_sources'', Optional, nullable (TArray TokensForNftSource)),
      (''limit'', Required, TNumber)]"

definition QueryMsg :: ty where
  "QueryMsg = TUnion
     [TObject [(''nfts_for_tokens'', Required, nfts_for_tokens)],
      TObject [(''tokens_for_nfts'', Required, tokens_for_nfts)]]"

definition Addr_router :: ty where
  "Addr_router = TString"

definition NftForTokensQuote :: ty where
  "NftForTokensQuote = TObject
     [(''address'', Required, Addr_router),
      (''amount'', Required, Uint128_router),
      (''source'', Required, NftForTokensSource)]"

definition ArrayOfNftForTokensQuote :: ty where
  "ArrayOfNftForTokensQuote = TArray NftForTokensQuote"

definition TokensForNftQuote :: ty where
  "TokensForNftQuote = TObject
     [(''address'', Required, Addr_router),
      (''amount'', Required, Uint128_router),
      (''source'', Required, TokensForNftSource)]"

definition ArrayOfTokensForNftQuote :: ty where
  "ArrayOfTokensForNftQuote = TArray TokensForNftQuote"


section \<open>Reading a value\<close>

text \<open>What sits under a key: a string, a number, a boolean.\<close>

definition str_at :: "'n json \<Rightarrow> string \<Rightarrow> bool" where
  "str_at j k = (case field j k of Some (JStr s) \<Rightarrow> True | _ \<Rightarrow> False)"

definition num_at :: "'n json \<Rightarrow> string \<Rightarrow> bool" where
  "num_at j k = (case field j k of Some (JNum n) \<Rightarrow> True | _ \<Rightarrow> False)"

definition bool_at :: "'n json \<Rightarrow> string \<Rightarrow> bool" where
  "bool_at j k = (case field j k of Some (JBool b) \<Rightarrow> True | _ \<Rightarrow> False)"

text \<open>
  An optional, nullable property: the key is absent, or it holds \<^verbatim>\<open>null\<close>, or it
  holds a value of the type.
\<close>

definition opt_at :: "'n json \<Rightarrow> string \<Rightarrow> ty \<Rightarrow> bool" where
  "opt_at j k t =
     (case field j k of None \<Rightarrow> True | Some JNull \<Rightarrow> True | Some v \<Rightarrow> has_type v t)"

text \<open>A key that holds something other than \<^verbatim>\<open>null\<close>.\<close>

definition present :: "'n json \<Rightarrow> string \<Rightarrow> bool" where
  "present j k = (case field j k of None \<Rightarrow> False | Some JNull \<Rightarrow> False | Some v \<Rightarrow> True)"




text \<open>
  How many of the four payment breakdowns of a swap record are there: seller, royalty,
  finder and NFT payment.
\<close>

definition payments_present :: "'n json \<Rightarrow> nat" where
  "payments_present j =
     length (filter (present j)
       [''seller_payment'', ''royalty_payment'', ''finder_payment'', ''nft_payment''])"


section \<open>Example values\<close>

definition token_payment_ex :: "int json" where
  "token_payment_ex = JObj [(''address'', JStr ''stars1seller''), (''amount'', JStr ''95'')]"

definition nft_payment_ex :: "int json" where
  "nft_payment_ex = JObj [(''address'', JStr ''stars1buyer''), (''nft_token_id'', JStr ''42'')]"

text \<open>A swap record with nothing but its required properties.\<close>

definition swap_plain :: "int json" where
  "swap_plain = JObj
     [(''network_fee'', JStr ''2''),
      (''pool_id'', JNum 7),
      (''spot_price'', JStr ''100''),
      (''transaction_type'', JStr ''sell'')]"

text \<open>The same without the network fee.\<close>

definition swap_without_fee :: "int json" where
  "swap_without_fee = JObj
     [(''pool_id'', JNum 7),
      (''spot_price'', JStr ''100''),
      (''transaction_type'', JStr ''sell'')]"

text \<open>A swap record with every property the declaration lists.\<close>

definition swap_full :: "int json" where
  "swap_full = JObj
     [(''finder_payment'', token_payment_ex),
      (''network_fee'', JStr ''2''),
      (''nft_payment'', nft_payment_ex),
      (''pool_id'', JNum 7),
      (''royalty_payment'', token_payment_ex),
      (''seller_payment'', token_payment_ex),
      (''spot_price'', JStr ''100''),
      (''transaction_type'', JStr ''sell'')]"

definition pool_ex :: "int json" where
  "pool_ex = JObj
     [(''bonding_curve'', JStr ''linear''),
      (''collection'', JStr ''stars1collection''),
      (''delta'', JStr ''10''),
      (''finders_fee_percent'', JStr ''0.5''),
      (''id'', JNum 7),
      (''is_active'', JBool True),
      (''nft_token_ids'', JArr [JStr ''42'', JStr ''43'']),
      (''owner'', JStr ''stars1owner''),
      (''pool_type'', JStr ''trade''),
      (''reinvest_nfts'', JBool False),
      (''reinvest_tokens'', JBool False),
      (''spot_price'', JStr ''340282366920938463463374607431768211455''),
      (''swap_fee_percent'', JStr ''1.25''),
      (''total_tokens'', JStr ''1000'')]"

definition pool_quote_ex :: "int json" where
  "pool_quote_ex = JObj
     [(''collection'', JStr ''stars1collection''),
      (''id'', JNum 7),
      (''quote_price'', JStr ''100'')]"

definition nft_for_tokens_quote_ex :: "int json" where
  "nft_for_tokens_quote_ex = JObj
     [(''address'', JStr ''stars1pool''),
      (''amount'', JStr ''100''),
      (''source'', JStr ''infinity'')]"

definition nft_swap_ex :: "int json" where
  "nft_swap_ex = JObj [(''nft_token_id'', JStr ''42''), (''token_amount'', JStr ''90'')]"

definition pool_nft_swap_ex :: "int json" where
  "pool_nft_swap_ex = JObj [(''nft_swaps'', JArr [nft_swap_ex]), (''pool_id'', JNum 7)]"

definition pool_info_ex :: "int json" where
  "pool_info_ex = JObj
     [(''asset_recipient'', JNull),
      (''bonding_curve'', JStr ''exponential''),
      (''collection'', JStr ''stars1collection''),
      (''delta'', JStr ''10''),
      (''finders_fee_percent'', JStr ''0.5''),
      (''pool_type'', JStr ''nft''),
      (''reinvest_nfts'', JBool True),
      (''reinvest_tokens'', JBool False),
      (''spot_price'', JStr ''100''),
      (''swap_fee_percent'', JStr ''1.25'')]"

definition sell_order_ex :: "int json" where
  "sell_order_ex = JObj [(''input_token_id'', JStr ''42''), (''min_output'', JStr ''90'')]"

definition swap_params_ex :: "int json" where
  "swap_params_ex = JObj [(''deadline'', JStr ''1700000000000000000''), (''robust'', JBool True)]"

definition router_swap_params_ex :: "int json" where
  "router_swap_params_ex = JObj [(''asset_recipient'', JStr ''stars1recipient'')]"

definition sell_payload_ex :: "int json" where
  "sell_payload_ex = JObj
     [(''collection'', JStr ''stars1collection''),
      (''denom'', JStr ''ustars''),
      (''sell_orders'', JArr [sell_order_ex])]"

definition buy_payload_ex :: "int json" where
  "buy_payload_ex = JObj
     [(''collection'', JStr ''stars1collection''),
      (''denom'', JStr ''ustars''),
      (''max_inputs'', JArr [JStr ''110''])]"

definition query_payload_ex :: "int json" where
  "query_payload_ex = JObj
     [(''collection'', JStr ''stars1collection''),
      (''denom'', JStr ''ustars''),
      (''limit'', JNum 10)]"

text \<open>An execute message of the router with one operation, and one with both.\<close>

definition execute_one :: "int json" where
  "execute_one = JObj [(''swap_nfts_for_tokens'', sell_payload_ex)]"

definition query_one :: "int json" where
  "query_one = JObj [(''tokens_for_nfts'', query_payload_ex)]"

definition execute_both :: "int json" where
  "execute_both = JObj
     [(''swap_nfts_for_tokens'', sell_payload_ex),
      (''swap_tokens_for_nfts'', buy_payload_ex)]"

definition query_both :: "int json" where
  "query_both = JObj
     [(''nfts_for_tokens'', query_payload_ex),
      (''tokens_for_nfts'', query_payload_ex)]"

text \<open>The answer to a query for the pools 7 and 8, of which only 7 exists.\<close>

definition pools_by_id_ex :: "int json" where
  "pools_by_id_ex = JObj
     [(''pools'', JArr [JArr [JNum 7, pool_ex], JArr [JNum 8, JNull]])]"

text \<open>An answer with the entry of pool 7 alone.\<close>

definition pools_omitting_ex :: "int json" where
  "pools_omitting_ex = JObj [(''pools'', JArr [JArr [JNum 7, pool_ex]])]"

definition query_options_u64_ex :: "int json" where
  "query_options_u64_ex = JObj
     [(''descending'', JBool True), (''limit'', JNum 30), (''start_after'', JNum 7)]"

definition query_options_ex :: "int json" where
  "query_options_ex = JObj [(''limit'', JNum 30), (''start_after'', JArr [JStr ''100'', JNum 7])]"


section \<open>Assignability, case by case\<close>

declare has_type.simps [simp del]

lemma has_type_TString_iff: "has_type j TString \<longleftrightarrow> (\<exists>s. j = JStr s)"
  by (cases j) (simp_all add: has_type.simps)

lemma has_type_TNumber_iff: "has_type j TNumber \<longleftrightarrow> (\<exists>n. j = JNum n)"
  by (cases j) (simp_all add: has_type.simps)

lemma has_type_TBoolean_iff: "has_type j TBoolean \<longleftrightarrow> (\<exists>b. j = JBool b)"
  by (cases j) (simp_all add: has_type.simps)

lemma has_type_TNull_iff: "has_type j TNull \<longleftrightarrow> j = JNull"
  by (cases j) (simp_all add: has_type.simps)

lemma has_type_TLit_iff: "has_type j (TLit l) \<longleftrightarrow> j = JStr l"
  by (cases j) (auto simp: has_type.simps)

lemma has_type_TUnion_iff: "has_type j (TUnion ts) \<longleftrightarrow> (\<exists>t \<in> set ts. has_type j t)"
  by (simp add: has_type.simps list_ex_iff)

lemma has_type_nullable_iff: "has_type j (nullable t) \<longleftrightarrow> has_type j t \<or> j = JNull"
  by (simp add: nullable_def has_type_TUnion_iff has_type_TNull_iff)

lemma has_type_TArray_iff:
  "has_type j (TArray t) \<longleftrightarrow> (\<exists>es. j = JArr es \<and> (\<forall>e \<in> set es. has_type e t))"
  by (cases j) (simp_all add: has_type.simps list_all_iff)

lemma has_type_pair_iff:
  "has_type j (TTuple [s, t]) \<longleftrightarrow> (\<exists>a b. j = JArr [a, b] \<and> has_type a s \<and> has_type b t)"
proof (cases j)
  case (JArr es)
  show ?thesis
  proof (cases es)
    case Nil
    with JArr show ?thesis by (simp add: has_type.simps)
  next
    case (Cons a as)
    note outer = Cons
    show ?thesis
    proof (cases as)
      case Nil
      with JArr outer show ?thesis by (simp add: has_type.simps)
    next
      case (Cons b bs)
      with JArr outer show ?thesis by (cases bs) (auto simp: has_type.simps)
    qed
  qed
qed (simp_all add: has_type.simps)

lemma has_type_TObject_iff:
  "has_type j (TObject fs) \<longleftrightarrow>
     (\<exists>kvs. j = JObj kvs \<and>
        (\<forall>(k, p, t) \<in> set fs.
           case map_of kvs k of None \<Rightarrow> p = Optional | Some v \<Rightarrow> has_type v t))"
  by (cases j) (simp_all add: has_type.simps list_all_iff)

text \<open>A required property is present and has its type.\<close>

lemma required_field:
  assumes "has_type j (TObject fs)" and "(k, Required, t) \<in> set fs"
  shows "\<exists>v. field j k = Some v \<and> has_type v t"
proof -
  from assms(1) obtain kvs where j: "j = JObj kvs"
    and all: "\<forall>(k, p, t) \<in> set fs.
                case map_of kvs k of None \<Rightarrow> p = Optional | Some v \<Rightarrow> has_type v t"
    unfolding has_type_TObject_iff by blast
  from all assms(2)
  have "case map_of kvs k of None \<Rightarrow> Required = Optional | Some v \<Rightarrow> has_type v t"
    by blast
  then show ?thesis using j by (cases "map_of kvs k") simp_all
qed

text \<open>A declared property, required or not, has its type wherever it is present.\<close>

lemma declared_field:
  assumes "has_type j (TObject fs)" and "(k, p, t) \<in> set fs" and "field j k = Some v"
  shows "has_type v t"
proof -
  from assms(1) obtain kvs where j: "j = JObj kvs"
    and all: "\<forall>(k, p, t) \<in> set fs.
                case map_of kvs k of None \<Rightarrow> p = Optional | Some v \<Rightarrow> has_type v t"
    unfolding has_type_TObject_iff by blast
  from all assms(2)
  have "case map_of kvs k of None \<Rightarrow> p = Optional | Some v \<Rightarrow> has_type v t"
    by blast
  then show ?thesis using j assms(3) by simp
qed

text \<open>A value that lacks a required property does not have the object type.\<close>

lemma missing_required_field:
  assumes "(k, Required, t) \<in> set fs" and "field j k = None"
  shows "\<not> has_type j (TObject fs)"
  using required_field [OF _ assms(1), of j] assms(2) by auto

lemma str_atI:
  assumes "has_type j (TObject fs)" and "(k, Required, TString) \<in> set fs"
  shows "str_at j k"
  using required_field [OF assms] by (auto simp: str_at_def has_type_TString_iff)

lemma num_atI:
  assumes "has_type j (TObject fs)" and "(k, Required, TNumber) \<in> set fs"
  shows "num_at j k"
  using required_field [OF assms] by (auto simp: num_at_def has_type_TNumber_iff)

lemma bool_atI:
  assumes "has_type j (TObject fs)" and "(k, Required, TBoolean) \<in> set fs"
  shows "bool_at j k"
  using required_field [OF assms] by (auto simp: bool_at_def has_type_TBoolean_iff)

lemma opt_atI:
  assumes "has_type j (TObject fs)" and "(k, p, nullable t) \<in> set fs"
  shows "opt_at j k t"
proof (cases "field j k")
  case None
  then show ?thesis by (simp add: opt_at_def)
next
  case (Some v)
  from declared_field [OF assms Some] have "has_type v t \<or> v = JNull"
    by (simp add: has_type_nullable_iff)
  with Some show ?thesis by (cases v) (auto simp: opt_at_def)
qed


lemmas example_defs =
  token_payment_ex_def nft_payment_ex_def swap_plain_def swap_full_def pool_ex_def
  pool_quote_ex_def nft_for_tokens_quote_ex_def swap_params_ex_def router_swap_params_ex_def
  sell_payload_ex_def buy_payload_ex_def query_payload_ex_def execute_one_def
  execute_both_def query_both_def pools_by_id_ex_def query_options_ex_def
  nft_swap_ex_def pool_nft_swap_ex_def pool_info_ex_def sell_order_ex_def
  query_options_u64_ex_def swap_without_fee_def query_one_def pools_omitting_ex_def

lemmas alias_defs =
  Addr_def Uint128_def Uint64_def Decimal_def Timestamp_def Addr_router_def Uint128_router_def

lemmas enum_defs =
  PoolType_def BondingCurve_def TransactionType_def NftForTokensSource_def
  TokensForNftSource_def

lemmas reader_defs = str_at_def num_at_def bool_at_def opt_at_def present_def

lemmas shape_defs =
  Config_def ConfigResponse_def InstantiateMsg_def NftSwap_def PoolInfo_def PoolNftSwap_def
  PoolQuote_def PoolQuoteResponse_def Pool_def PoolsByIdResponse_def PoolsResponse_def
  QueryOptionsForTupleOfUint128AndUint64_def QueryOptionsForUint64_def SwapParams_def
  TokenPayment_def NftPayment_def Swap_def SwapResponse_def InstantiateMsg_router_def
  SellOrder_def SwapParamsForString_def swap_nfts_for_tokens_def swap_tokens_for_nfts_def
  ExecuteMsg_def nfts_for_tokens_def tokens_for_nfts_def QueryMsg_def NftForTokensQuote_def
  TokensForNftQuote_def ArrayOfNftForTokensQuote_def ArrayOfTokensForNftQuote_def
  nullable_def

lemmas eval_defs = has_type.simps shape_defs alias_defs enum_defs reader_defs example_defs


section \<open>Enumerated string unions\<close>

text \<open>
  Claim C6. The string unions are closed: a value has type \<^verbatim>\<open>PoolType\<close> exactly when
  it is one of the strings "token", "nft", "trade"; \<^verbatim>\<open>BondingCurve\<close> exactly when it is
  one of "linear", "exponential", "constant_product"; \<^verbatim>\<open>TransactionType\<close> exactly when
  it is "sell" or "buy"; and each of the two quote source types exactly when it is the
  string "infinity". Nothing else inhabits any of them.
\<close>

theorem string_unions_closed:
  "(has_type j PoolType \<longleftrightarrow> j = JStr ''token'' \<or> j = JStr ''nft'' \<or> j = JStr ''trade'') \<and>
   (has_type j BondingCurve \<longleftrightarrow>
      j = JStr ''linear'' \<or> j = JStr ''exponential'' \<or> j = JStr ''constant_product'') \<and>
   (has_type j TransactionType \<longleftrightarrow> j = JStr ''sell'' \<or> j = JStr ''buy'') \<and>
   (has_type j NftForTokensSource \<longleftrightarrow> j = JStr ''infinity'') \<and>
   (has_type j TokensForNftSource \<longleftrightarrow> j = JStr ''infinity'')"
  by (simp add: enum_defs has_type_TUnion_iff has_type_TLit_iff)

theorem string_unions_closed_witness:
  "has_type (JStr ''trade'' :: int json) PoolType \<and>
   \<not> has_type (JStr ''swap'' :: int json) PoolType \<and>
   \<not> has_type (JStr ''Buy'' :: int json) TransactionType \<and>
   \<not> has_type (JNull :: int json) BondingCurve"
  using string_unions_closed [of "JStr ''trade'' :: int json"]
    string_unions_closed [of "JStr ''swap'' :: int json"]
    string_unions_closed [of "JStr ''Buy'' :: int json"]
    string_unions_closed [of "JNull :: int json"]
  by simp


section \<open>Strings for quantities, numbers for identifiers\<close>

lemma opt_at_TNumber:
  "opt_at j k TNumber \<longleftrightarrow> field j k = None \<or> field j k = Some JNull \<or> num_at j k"
proof (cases "field j k")
  case None
  then show ?thesis by (simp add: opt_at_def)
next
  case (Some v)
  then show ?thesis
    by (cases v) (simp_all add: opt_at_def num_at_def has_type.simps)
qed

lemma str_at_not_num_at: "str_at j k \<Longrightarrow> \<not> num_at j k"
  by (auto simp: str_at_def num_at_def split: option.splits json.splits)

text \<open>The cursor of the pool-by-price queries: a pair of a price and a pool id.\<close>

lemma start_after_shape:
  assumes "has_type j QueryOptionsForTupleOfUint128AndUint64"
  shows "field j ''start_after'' = None \<or> field j ''start_after'' = Some JNull \<or>
         (\<exists>s n. field j ''start_after'' = Some (JArr [JStr s, JNum n]))"
proof (cases "field j ''start_after''")
  case None
  then show ?thesis by simp
next
  case (Some v)
  have "has_type v (nullable (TTuple [TString, TNumber]))"
    by (rule declared_field
          [OF assms [unfolded QueryOptionsForTupleOfUint128AndUint64_def Uint128_def] _ Some])
       simp
  then have "v = JNull \<or> (\<exists>s n. v = JArr [JStr s, JNum n])"
    by (auto simp: has_type_nullable_iff has_type_pair_iff has_type_TString_iff
          has_type_TNumber_iff)
  with Some show ?thesis by auto
qed

lemma max_inputs_shape:
  assumes "has_type j swap_tokens_for_nfts"
  shows "\<exists>es. field j ''max_inputs'' = Some (JArr es) \<and> (\<forall>e \<in> set es. \<exists>s. e = JStr s)"
proof -
  have "\<exists>v. field j ''max_inputs'' = Some v \<and> has_type v (TArray TString)"
    by (rule required_field [OF assms [unfolded swap_tokens_for_nfts_def Uint128_router_def]])
       simp
  then show ?thesis
    by (auto simp: has_type_TArray_iff has_type_TString_iff)
qed

text \<open>
  Claim C2. Every quantity typed \<^verbatim>\<open>Uint128\<close>, \<^verbatim>\<open>Uint64\<close>, \<^verbatim>\<open>Decimal\<close> or
  \<^verbatim>\<open>Timestamp\<close> is represented as a string, never as a number: the values of each of
  these types are exactly the JSON strings, and in every declared shape each property
  (array element, tuple component) of such a type holds a string. The text of the string
  is what the contract writes, a decimal numeral; the largest 128-bit value, far beyond
  what a \<^verbatim>\<open>number\<close> holds exactly, is carried as it is (see the witness).
\<close>

theorem quantities_are_strings:
  "(has_type j Uint128 \<longleftrightarrow> (\<exists>s. j = JStr s)) \<and>
   (has_type j Uint64 \<longleftrightarrow> (\<exists>s. j = JStr s)) \<and>
   (has_type j Decimal \<longleftrightarrow> (\<exists>s. j = JStr s)) \<and>
   (has_type j Timestamp \<longleftrightarrow> (\<exists>s. j = JStr s)) \<and>
   (has_type j Uint128_router \<longleftrightarrow> (\<exists>s. j = JStr s)) \<and>
   (has_type j NftSwap \<longrightarrow> str_at j ''token_amount'') \<and>
   (has_type j PoolInfo \<longrightarrow>
      str_at j ''delta'' \<and> str_at j ''finders_fee_percent'' \<and>
      str_at j ''spot_price'' \<and> str_at j ''swap_fee_percent'') \<and>
   (has_type j PoolQuote \<longrightarrow> str_at j ''quote_price'') \<and>
   (has_type j Pool \<longrightarrow>
      str_at j ''delta'' \<and> str_at j ''finders_fee_percent'' \<and>
      str_at j ''spot_price'' \<and> str_at j ''swap_fee_percent'' \<and>
      str_at j ''total_tokens'') \<and>
   (has_type j QueryOptionsForTupleOfUint128AndUint64 \<longrightarrow>
      field j ''start_after'' = None \<or> field j ''start_after'' = Some JNull \<or>
      (\<exists>s n. field j ''start_after'' = Some (JArr [JStr s, JNum n]))) \<and>
   (has_type j SwapParams \<longrightarrow> str_at j ''deadline'') \<and>
   (has_type j Swap \<longrightarrow> str_at j ''network_fee'' \<and> str_at j ''spot_price'') \<and>
   (has_type j TokenPayment \<longrightarrow> str_at j ''amount'') \<and>
   (has_type j SellOrder \<longrightarrow> str_at j ''min_output'') \<and>
   (has_type j swap_tokens_for_nfts \<longrightarrow>
      (\<exists>es. field j ''max_inputs'' = Some (JArr es) \<and> (\<forall>e \<in> set es. \<exists>s. e = JStr s))) \<and>
   (has_type j NftForTokensQuote \<longrightarrow> str_at j ''amount'') \<and>
   (has_type j TokensForNftQuote \<longrightarrow> str_at j ''amount'')"
proof (intro conjI impI)
  show "has_type j Uint128 \<longleftrightarrow> (\<exists>s. j = JStr s)"
    and "has_type j Uint64 \<longleftrightarrow> (\<exists>s. j = JStr s)"
    and "has_type j Decimal \<longleftrightarrow> (\<exists>s. j = JStr s)"
    and "has_type j Timestamp \<longleftrightarrow> (\<exists>s. j = JStr s)"
    and "has_type j Uint128_router \<longleftrightarrow> (\<exists>s. j = JStr s)"
    by (simp_all add: alias_defs has_type_TString_iff)
next
  assume "has_type j QueryOptionsForTupleOfUint128AndUint64"
  then show "field j ''start_after'' = None \<or> field j ''start_after'' = Some JNull \<or>
      (\<exists>s n. field j ''start_after'' = Some (JArr [JStr s, JNum n]))"
    by (rule start_after_shape)
next
  assume "has_type j swap_tokens_for_nfts"
  then show "\<exists>es. field j ''max_inputs'' = Some (JArr es) \<and> (\<forall>e \<in> set es. \<exists>s. e = JStr s)"
    by (rule max_inputs_shape)
qed (unfold NftSwap_def PoolInfo_def PoolQuote_def Pool_def SwapParams_def Swap_def
      TokenPayment_def SellOrder_def NftForTokensQuote_def TokensForNftQuote_def alias_defs,
    (erule str_atI, simp)+)


theorem quantities_are_strings_witness:
  "has_type (JStr ''340282366920938463463374607431768211455'' :: int json) Uint128 \<and>
   \<not> has_type (JNum 100 :: int json) Uint128 \<and>
   \<not> has_type (JNum 100 :: int json) Decimal \<and>
   \<not> has_type (JNum 1700000000 :: int json) Timestamp \<and>
   has_type nft_swap_ex NftSwap \<and> str_at nft_swap_ex ''token_amount'' \<and>
   has_type pool_info_ex PoolInfo \<and> str_at pool_info_ex ''finders_fee_percent'' \<and>
   has_type pool_quote_ex PoolQuote \<and> str_at pool_quote_ex ''quote_price'' \<and>
   has_type pool_ex Pool \<and> str_at pool_ex ''spot_price'' \<and> str_at pool_ex ''total_tokens'' \<and>
   has_type query_options_ex QueryOptionsForTupleOfUint128AndUint64 \<and>
   (\<exists>s n. field query_options_ex ''start_after'' = Some (JArr [JStr s, JNum n])) \<and>
   has_type swap_params_ex SwapParams \<and> str_at swap_params_ex ''deadline'' \<and>
   has_type swap_full Swap \<and> str_at swap_full ''network_fee'' \<and>
   has_type token_payment_ex TokenPayment \<and> str_at token_payment_ex ''amount'' \<and>
   has_type sell_order_ex SellOrder \<and> str_at sell_order_ex ''min_output'' \<and>
   has_type buy_payload_ex swap_tokens_for_nfts \<and>
   (\<exists>es. field buy_payload_ex ''max_inputs'' = Some (JArr es) \<and> (\<forall>e \<in> set es. \<exists>s. e = JStr s)) \<and>
   has_type nft_for_tokens_quote_ex NftForTokensQuote \<and>
   str_at nft_for_tokens_quote_ex ''amount'' \<and>
   has_type nft_for_tokens_quote_ex TokensForNftQuote"
proof -
  have types:
    "has_type nft_swap_ex NftSwap" "has_type pool_info_ex PoolInfo"
    "has_type pool_quote_ex PoolQuote" "has_type pool_ex Pool"
    "has_type query_options_ex QueryOptionsForTupleOfUint128AndUint64"
    "has_type swap_params_ex SwapParams" "has_type swap_full Swap"
    "has_type token_payment_ex TokenPayment" "has_type sell_order_ex SellOrder"
    "has_type buy_payload_ex swap_tokens_for_nfts"
    "has_type nft_for_tokens_quote_ex NftForTokensQuote"
    "has_type nft_for_tokens_quote_ex TokensForNftQuote"
    by (simp_all add: eval_defs)
  note q = quantities_are_strings
  have 1: "has_type (JStr ''340282366920938463463374607431768211455'' :: int json) Uint128"
    using q [of "JStr ''340282366920938463463374607431768211455'' :: int json"] by simp
  have 2: "\<not> has_type (JNum 100 :: int json) Uint128"
    "\<not> has_type (JNum 100 :: int json) Decimal"
    "\<not> has_type (JNum 1700000000 :: int json) Timestamp"
    using q [of "JNum 100 :: int json"] q [of "JNum 1700000000 :: int json"] by simp_all
  have 3: "str_at nft_swap_ex ''token_amount''"
    using q [of nft_swap_ex] types(1) by simp
  have 4: "str_at pool_info_ex ''finders_fee_percent''"
    using q [of pool_info_ex] types(2) by simp
  have 5: "str_at pool_quote_ex ''quote_price''"
    using q [of pool_quote_ex] types(3) by simp
  have 6: "str_at pool_ex ''spot_price''" "str_at pool_ex ''total_tokens''"
    using q [of pool_ex] types(4) by simp_all
  have 7: "\<exists>s n. field query_options_ex ''start_after'' = Some (JArr [JStr s, JNum n])"
    using q [of query_options_ex] types(5) by (simp add: query_options_ex_def)
  have 8: "str_at swap_params_ex ''deadline''"
    using q [of swap_params_ex] types(6) by simp
  have 9: "str_at swap_full ''network_fee''"
    using q [of swap_full] types(7) by simp
  have 10: "str_at token_payment_ex ''amount''"
    using q [of token_payment_ex] types(8) by simp
  have 11: "str_at sell_order_ex ''min_output''"
    using q [of sell_order_ex] types(9) by simp
  have 12: "\<exists>es. field buy_payload_ex ''max_inputs'' = Some (JArr es) \<and>
              (\<forall>e \<in> set es. \<exists>s. e = JStr s)"
    using q [of buy_payload_ex] types(10) by simp
  have 13: "str_at nft_for_tokens_quote_ex ''amount''"
    using q [of nft_for_tokens_quote_ex] types(11) by simp
  show ?thesis
    using types 1 2 3 4 5 6 7 8 9 10 11 12 13 by simp
qed

text \<open>
  Claim C8. The pool identifiers (\<^verbatim>\<open>Pool.id\<close>, \<^verbatim>\<open>PoolQuote.id\<close>,
  \<^verbatim>\<open>PoolNftSwap.pool_id\<close>, \<^verbatim>\<open>Swap.pool_id\<close>) and the limit properties are
  numbers, not strings, unlike the quantities above. The limit of the two router queries
  is required and always a number; the limit of the two query option envelopes is
  declared \<^verbatim>\<open>limit?: number | null\<close>, so where a limit is given it is a number, and
  it is never a string.
\<close>

theorem ids_and_limits_are_numbers:
  "(has_type j Pool \<longrightarrow> num_at j ''id'') \<and>
   (has_type j PoolQuote \<longrightarrow> num_at j ''id'') \<and>
   (has_type j PoolNftSwap \<longrightarrow> num_at j ''pool_id'') \<and>
   (has_type j Swap \<longrightarrow> num_at j ''pool_id'') \<and>
   (has_type j nfts_for_tokens \<longrightarrow> num_at j ''limit'') \<and>
   (has_type j tokens_for_nfts \<longrightarrow> num_at j ''limit'') \<and>
   (has_type j QueryOptionsForUint64 \<longrightarrow>
      (field j ''limit'' = None \<or> field j ''limit'' = Some JNull \<or> num_at j ''limit'') \<and>
      \<not> str_at j ''limit'') \<and>
   (has_type j QueryOptionsForTupleOfUint128AndUint64 \<longrightarrow>
      (field j ''limit'' = None \<or> field j ''limit'' = Some JNull \<or> num_at j ''limit'') \<and>
      \<not> str_at j ''limit'') \<and>
   (num_at j k \<longrightarrow> \<not> str_at j k)"
proof -
  have opt: "(field j ''limit'' = None \<or> field j ''limit'' = Some JNull \<or> num_at j ''limit'') \<and>
      \<not> str_at j ''limit''" if "opt_at j ''limit'' TNumber"
    using that unfolding opt_at_TNumber
    by (auto simp: str_at_def num_at_def split: option.splits json.splits)
  have a: "has_type j QueryOptionsForUint64 \<Longrightarrow> opt_at j ''limit'' TNumber"
    unfolding QueryOptionsForUint64_def by (erule opt_atI) simp
  have b: "has_type j QueryOptionsForTupleOfUint128AndUint64 \<Longrightarrow> opt_at j ''limit'' TNumber"
    unfolding QueryOptionsForTupleOfUint128AndUint64_def by (erule opt_atI) simp
  have c: "num_at j k \<longrightarrow> \<not> str_at j k"
    using str_at_not_num_at [of j k] by blast
  have d: "has_type j Pool \<longrightarrow> num_at j ''id''"
    "has_type j PoolQuote \<longrightarrow> num_at j ''id''"
    "has_type j PoolNftSwap \<longrightarrow> num_at j ''pool_id''"
    "has_type j Swap \<longrightarrow> num_at j ''pool_id''"
    "has_type j nfts_for_tokens \<longrightarrow> num_at j ''limit''"
    "has_type j tokens_for_nfts \<longrightarrow> num_at j ''limit''"
    unfolding Pool_def PoolQuote_def PoolNftSwap_def Swap_def nfts_for_tokens_def
      tokens_for_nfts_def
    by (rule impI, erule num_atI, simp)+
  from opt [OF a] opt [OF b] c d show ?thesis by blast
qed

theorem ids_and_limits_are_numbers_witness:
  "has_type pool_ex Pool \<and> num_at pool_ex ''id'' \<and>
   has_type pool_quote_ex PoolQuote \<and> num_at pool_quote_ex ''id'' \<and>
   has_type pool_nft_swap_ex PoolNftSwap \<and> num_at pool_nft_swap_ex ''pool_id'' \<and>
   has_type swap_plain Swap \<and> num_at swap_plain ''pool_id'' \<and>
   has_type query_payload_ex nfts_for_tokens \<and> has_type query_payload_ex tokens_for_nfts \<and>
   num_at query_payload_ex ''limit'' \<and>
   has_type query_options_u64_ex QueryOptionsForUint64 \<and>
   num_at query_options_u64_ex ''limit'' \<and> \<not> str_at query_options_u64_ex ''limit'' \<and>
   has_type query_options_ex QueryOptionsForTupleOfUint128AndUint64 \<and>
   num_at query_options_ex ''limit'' \<and> \<not> str_at query_options_ex ''limit''"
proof -
  have types:
    "has_type pool_ex Pool" "has_type pool_quote_ex PoolQuote"
    "has_type pool_nft_swap_ex PoolNftSwap" "has_type swap_plain Swap"
    "has_type query_payload_ex nfts_for_tokens" "has_type query_payload_ex tokens_for_nfts"
    "has_type query_options_u64_ex QueryOptionsForUint64"
    "has_type query_options_ex QueryOptionsForTupleOfUint128AndUint64"
    by (simp_all add: eval_defs)
  note n = ids_and_limits_are_numbers
  have 1: "num_at pool_ex ''id''"
    using n [of pool_ex] types(1) by simp
  have 2: "num_at pool_quote_ex ''id''"
    using n [of pool_quote_ex] types(2) by simp
  have 3: "num_at pool_nft_swap_ex ''pool_id''"
    using n [of pool_nft_swap_ex] types(3) by simp
  have 4: "num_at swap_plain ''pool_id''"
    using n [of swap_plain] types(4) by simp
  have 5: "num_at query_payload_ex ''limit''"
    using n [of query_payload_ex] types(5) by simp
  have 6: "num_at query_options_u64_ex ''limit''" "\<not> str_at query_options_u64_ex ''limit''"
    using n [of query_options_u64_ex] types(7)
    by (simp_all add: query_options_u64_ex_def num_at_def)
  have 7: "num_at query_options_ex ''limit''" "\<not> str_at query_options_ex ''limit''"
    using n [of query_options_ex] types(8)
    by (simp_all add: query_options_ex_def num_at_def)
  show ?thesis
    using types 1 2 3 4 5 6 7 by simp
qed


section \<open>Swap records and pool lookups\<close>

text \<open>
  Claim C9. Every \<^verbatim>\<open>Swap\<close> value carries a network fee: the property
  \<^verbatim>\<open>network_fee\<close> is declared required, of type \<^verbatim>\<open>Uint128\<close>, so it is present
  and holds a string in every value of the type, and a value without it is not a
  \<^verbatim>\<open>Swap\<close>. The four payment breakdowns beside it are declared optional and
  nullable.
\<close>

theorem swap_network_fee_required:
  "(has_type j Swap \<longrightarrow> str_at j ''network_fee'') \<and>
   (field j ''network_fee'' = None \<longrightarrow> \<not> has_type j Swap) \<and>
   declared Swap ''network_fee'' = Some (Required, Uint128) \<and>
   declared Swap ''seller_payment'' = Some (Optional, nullable TokenPayment) \<and>
   declared Swap ''royalty_payment'' = Some (Optional, nullable TokenPayment) \<and>
   declared Swap ''finder_payment'' = Some (Optional, nullable TokenPayment) \<and>
   declared Swap ''nft_payment'' = Some (Optional, nullable NftPayment)"
proof -
  have fee: "str_at j ''network_fee''" if "has_type j Swap"
    using that unfolding Swap_def Uint128_def by (rule str_atI) simp
  have "\<not> has_type j Swap" if "field j ''network_fee'' = None"
    using fee that by (auto simp: str_at_def)
  with fee show ?thesis
    by (simp add: Swap_def)
qed

theorem swap_network_fee_required_witness:
  "has_type swap_plain Swap \<and> str_at swap_plain ''network_fee'' \<and>
   payments_present swap_plain = 0 \<and>
   field swap_without_fee ''network_fee'' = None \<and> \<not> has_type swap_without_fee Swap"
proof -
  have t: "has_type swap_plain Swap"
    by (simp add: eval_defs)
  have f: "field swap_without_fee ''network_fee'' = None"
    by (simp add: swap_without_fee_def)
  have p: "payments_present swap_plain = 0"
    by (simp add: payments_present_def present_def swap_plain_def)
  from swap_network_fee_required [of swap_plain] swap_network_fee_required [of swap_without_fee]
    t f p
  show ?thesis by simp
qed





text \<open>
  Claim C3, as stated, does not hold: it describes a swap record as a direction, a spot
  price, a pool id and up to three payment breakdowns, and nothing else. The record below
  is a \<^verbatim>\<open>Swap\<close> value, it carries all four payment breakdowns, and it carries
  a network fee, which the description does not list.
\<close>

theorem swap_description_counterexample:
  "has_type swap_full Swap \<and> payments_present swap_full = 4 \<and>
   field swap_full ''network_fee'' = Some (JStr ''2'')"
  by (simp add: eval_defs payments_present_def)

text \<open>
  Claim C3, amended. Every \<^verbatim>\<open>Swap\<close> value is a single execution record with a
  transaction direction (sell or buy), a resulting spot price, a pool id, a network fee,
  and up to four optional payment breakdowns: seller, royalty and finder payment, each an
  (address, amount) pair, and NFT payment, an (address, token id) pair. The declaration
  lists these eight properties and no others.
\<close>

theorem swap_record_shape:
  "(has_type j Swap \<longrightarrow>
      (field j ''transaction_type'' = Some (JStr ''sell'') \<or>
       field j ''transaction_type'' = Some (JStr ''buy'')) \<and>
      str_at j ''spot_price'' \<and> num_at j ''pool_id'' \<and> str_at j ''network_fee'' \<and>
      opt_at j ''seller_payment'' TokenPayment \<and> opt_at j ''royalty_payment'' TokenPayment \<and>
      opt_at j ''finder_payment'' TokenPayment \<and> opt_at j ''nft_payment'' NftPayment \<and>
      payments_present j \<le> 4) \<and>
   (has_type j TokenPayment \<longrightarrow> str_at j ''address'' \<and> str_at j ''amount'') \<and>
   (has_type j NftPayment \<longrightarrow> str_at j ''address'' \<and> str_at j ''nft_token_id'') \<and>
   declared_keys Swap =
     [''finder_payment'', ''network_fee'', ''nft_payment'', ''pool_id'', ''royalty_payment'',
      ''seller_payment'', ''spot_price'', ''transaction_type''] \<and>
   declared_keys TokenPayment = [''address'', ''amount''] \<and>
   declared_keys NftPayment = [''address'', ''nft_token_id'']"
proof -
  have direction: "field j ''transaction_type'' = Some (JStr ''sell'') \<or>
      field j ''transaction_type'' = Some (JStr ''buy'')" if "has_type j Swap"
  proof -
    have "\<exists>v. field j ''transaction_type'' = Some v \<and> has_type v TransactionType"
      using that unfolding Swap_def by (rule required_field) simp
    then show ?thesis
      by (auto simp: TransactionType_def has_type_TUnion_iff has_type_TLit_iff)
  qed
  have strs: "str_at j ''spot_price''" "str_at j ''network_fee''" if "has_type j Swap"
    using that unfolding Swap_def Uint128_def by (rule str_atI, simp)+
  have num: "num_at j ''pool_id''" if "has_type j Swap"
    using that unfolding Swap_def by (rule num_atI) simp
  have opts: "opt_at j ''seller_payment'' TokenPayment" "opt_at j ''royalty_payment'' TokenPayment"
    "opt_at j ''finder_payment'' TokenPayment" "opt_at j ''nft_payment'' NftPayment"
    if "has_type j Swap"
    using that unfolding Swap_def by (rule opt_atI, simp)+
  have count: "payments_present j \<le> 4"
    unfolding payments_present_def
    by (rule order_trans [OF length_filter_le]) simp
  have token: "str_at j ''address''" "str_at j ''amount''" if "has_type j TokenPayment"
    using that unfolding TokenPayment_def Uint128_def by (rule str_atI, simp)+
  have nft: "str_at j ''address''" "str_at j ''nft_token_id''" if "has_type j NftPayment"
    using that unfolding NftPayment_def by (rule str_atI, simp)+
  have keys: "declared_keys Swap =
     [''finder_payment'', ''network_fee'', ''nft_payment'', ''pool_id'', ''royalty_payment'',
      ''seller_payment'', ''spot_price'', ''transaction_type'']"
    "declared_keys TokenPayment = [''address'', ''amount'']"
    "declared_keys NftPayment = [''address'', ''nft_token_id'']"
    by (simp_all add: Swap_def TokenPayment_def NftPayment_def)
  from direction strs num opts count token nft keys show ?thesis
    by blast
qed

theorem swap_record_shape_witness:
  "has_type swap_full Swap \<and>
   field swap_full ''transaction_type'' = Some (JStr ''sell'') \<and>
   str_at swap_full ''spot_price'' \<and> num_at swap_full ''pool_id'' \<and>
   str_at swap_full ''network_fee'' \<and>
   opt_at swap_full ''seller_payment'' TokenPayment \<and>
   opt_at swap_full ''nft_payment'' NftPayment \<and>
   has_type token_payment_ex TokenPayment \<and> str_at token_payment_ex ''amount'' \<and>
   has_type nft_payment_ex NftPayment \<and> str_at nft_payment_ex ''nft_token_id''"
proof -
  have t: "has_type swap_full Swap" "has_type token_payment_ex TokenPayment"
    "has_type nft_payment_ex NftPayment"
    by (simp_all add: eval_defs)
  have d: "field swap_full ''transaction_type'' = Some (JStr ''sell'')"
    by (simp add: swap_full_def)
  from swap_record_shape [of swap_full] swap_record_shape [of token_payment_ex]
    swap_record_shape [of nft_payment_ex] t d
  show ?thesis by simp
qed


section \<open>Swap parameters and quotes\<close>

text \<open>
  Claim C4, as stated, does not hold for the router: the value below is a
  \<^verbatim>\<open>SwapParamsForString\<close>, and it has neither a deadline nor a robustness flag.
\<close>

theorem swap_params_counterexample:
  "has_type router_swap_params_ex SwapParamsForString \<and>
   field router_swap_params_ex ''deadline'' = None \<and>
   field router_swap_params_ex ''robust'' = None"
  by (simp add: eval_defs)

text \<open>
  Claim C4, amended. \<^verbatim>\<open>SwapParams\<close> of the pool contract consists of exactly two
  required execution constraints: a deadline, a \<^verbatim>\<open>Timestamp\<close> and so a string, and
  a robustness flag. \<^verbatim>\<open>SwapParamsForString\<close> of the router contract declares no
  deadline; it consists of two optional, nullable properties, an asset recipient (a
  string) and the robustness flag, so that even the empty object is a value of it.
\<close>

theorem swap_params_shape:
  "(has_type (j :: 'n json) SwapParams \<longrightarrow> str_at j ''deadline'' \<and> bool_at j ''robust'') \<and>
   declared_keys SwapParams = [''deadline'', ''robust''] \<and>
   declared SwapParams ''deadline'' = Some (Required, Timestamp) \<and>
   declared SwapParams ''robust'' = Some (Required, TBoolean) \<and>
   (has_type j SwapParamsForString \<longrightarrow>
      opt_at j ''asset_recipient'' TString \<and> opt_at j ''robust'' TBoolean) \<and>
   declared_keys SwapParamsForString = [''asset_recipient'', ''robust''] \<and>
   declared SwapParamsForString ''asset_recipient'' = Some (Optional, nullable TString) \<and>
   declared SwapParamsForString ''robust'' = Some (Optional, nullable TBoolean) \<and>
   declared SwapParamsForString ''deadline'' = None \<and>
   has_type (JObj [] :: 'n json) SwapParamsForString"
proof -
  have pool: "str_at j ''deadline''" "bool_at j ''robust''" if "has_type j SwapParams"
  proof -
    note h = that [unfolded SwapParams_def Timestamp_def Uint64_def]
    show "str_at j ''deadline''" by (rule str_atI [OF h]) simp
    show "bool_at j ''robust''" by (rule bool_atI [OF h]) simp
  qed
  have router: "opt_at j ''asset_recipient'' TString" "opt_at j ''robust'' TBoolean"
    if "has_type j SwapParamsForString"
    using that unfolding SwapParamsForString_def by (rule opt_atI, simp)+
  have decls:
    "declared_keys SwapParams = [''deadline'', ''robust'']"
    "declared SwapParams ''deadline'' = Some (Required, Timestamp)"
    "declared SwapParams ''robust'' = Some (Required, TBoolean)"
    "declared_keys SwapParamsForString = [''asset_recipient'', ''robust'']"
    "declared SwapParamsForString ''asset_recipient'' = Some (Optional, nullable TString)"
    "declared SwapParamsForString ''robust'' = Some (Optional, nullable TBoolean)"
    "declared SwapParamsForString ''deadline'' = None"
    by (simp_all add: SwapParams_def SwapParamsForString_def)
  have empty: "has_type (JObj [] :: 'n json) SwapParamsForString"
    by (simp add: SwapParamsForString_def has_type.simps)
  from pool router decls empty show ?thesis
    by blast
qed

theorem swap_params_shape_witness:
  "has_type swap_params_ex SwapParams \<and>
   str_at swap_params_ex ''deadline'' \<and> bool_at swap_params_ex ''robust'' \<and>
   has_type router_swap_params_ex SwapParamsForString \<and>
   opt_at router_swap_params_ex ''asset_recipient'' TString \<and>
   opt_at router_swap_params_ex ''robust'' TBoolean"
proof -
  have t: "has_type swap_params_ex SwapParams"
    "has_type router_swap_params_ex SwapParamsForString"
    by (simp_all add: eval_defs)
  from swap_params_shape [of swap_params_ex] swap_params_shape [of router_swap_params_ex] t
  show ?thesis by simp
qed

text \<open>
  Claim C5, as stated, does not hold for \<^verbatim>\<open>PoolQuote\<close>: the value below is a
  \<^verbatim>\<open>PoolQuote\<close> without a source discriminator, and the declaration has no such
  property.
\<close>

theorem pool_quote_counterexample:
  "has_type pool_quote_ex PoolQuote \<and> field pool_quote_ex ''source'' = None \<and>
   declared PoolQuote ''source'' = None"
  by (simp add: eval_defs)

text \<open>
  Claim C5, amended. \<^verbatim>\<open>NftForTokensQuote\<close> and \<^verbatim>\<open>TokensForNftQuote\<close> each
  carry an address, a quoted amount and a source discriminator, the string "infinity".
  \<^verbatim>\<open>PoolQuote\<close> carries a collection address, a numeric pool id and a quoted price,
  and no source discriminator.
\<close>

theorem quote_shapes:
  "(has_type j NftForTokensQuote \<longrightarrow>
      str_at j ''address'' \<and> str_at j ''amount'' \<and>
      field j ''source'' = Some (JStr ''infinity'')) \<and>
   (has_type j TokensForNftQuote \<longrightarrow>
      str_at j ''address'' \<and> str_at j ''amount'' \<and>
      field j ''source'' = Some (JStr ''infinity'')) \<and>
   (has_type j PoolQuote \<longrightarrow>
      str_at j ''collection'' \<and> num_at j ''id'' \<and> str_at j ''quote_price'') \<and>
   declared_keys NftForTokensQuote = [''address'', ''amount'', ''source''] \<and>
   declared_keys TokensForNftQuote = [''address'', ''amount'', ''source''] \<and>
   declared_keys PoolQuote = [''collection'', ''id'', ''quote_price'']"
proof -
  have sell: "str_at j ''address''" "str_at j ''amount''"
    "field j ''source'' = Some (JStr ''infinity'')" if "has_type j NftForTokensQuote"
  proof -
    note h = that [unfolded NftForTokensQuote_def Addr_router_def Uint128_router_def]
    show "str_at j ''address''" by (rule str_atI [OF h]) simp
    show "str_at j ''amount''" by (rule str_atI [OF h]) simp
    have "\<exists>v. field j ''source'' = Some v \<and> has_type v NftForTokensSource"
      by (rule required_field [OF h]) simp
    then show "field j ''source'' = Some (JStr ''infinity'')"
      by (auto simp: NftForTokensSource_def has_type_TLit_iff)
  qed
  have buy: "str_at j ''address''" "str_at j ''amount''"
    "field j ''source'' = Some (JStr ''infinity'')" if "has_type j TokensForNftQuote"
  proof -
    note h = that [unfolded TokensForNftQuote_def Addr_router_def Uint128_router_def]
    show "str_at j ''address''" by (rule str_atI [OF h]) simp
    show "str_at j ''amount''" by (rule str_atI [OF h]) simp
    have "\<exists>v. field j ''source'' = Some v \<and> has_type v TokensForNftSource"
      by (rule required_field [OF h]) simp
    then show "field j ''source'' = Some (JStr ''infinity'')"
      by (auto simp: TokensForNftSource_def has_type_TLit_iff)
  qed
  have pool: "str_at j ''collection''" "num_at j ''id''" "str_at j ''quote_price''"
    if "has_type j PoolQuote"
  proof -
    note h = that [unfolded PoolQuote_def Addr_def Uint128_def]
    show "str_at j ''collection''" by (rule str_atI [OF h]) simp
    show "num_at j ''id''" by (rule num_atI [OF h]) simp
    show "str_at j ''quote_price''" by (rule str_atI [OF h]) simp
  qed
  have keys:
    "declared_keys NftForTokensQuote = [''address'', ''amount'', ''source'']"
    "declared_keys TokensForNftQuote = [''address'', ''amount'', ''source'']"
    "declared_keys PoolQuote = [''collection'', ''id'', ''quote_price'']"
    by (simp_all add: NftForTokensQuote_def TokensForNftQuote_def PoolQuote_def)
  from sell buy pool keys show ?thesis
    by blast
qed

theorem quote_shapes_witness:
  "has_type nft_for_tokens_quote_ex NftForTokensQuote \<and>
   has_type nft_for_tokens_quote_ex TokensForNftQuote \<and>
   str_at nft_for_tokens_quote_ex ''address'' \<and> str_at nft_for_tokens_quote_ex ''amount'' \<and>
   field nft_for_tokens_quote_ex ''source'' = Some (JStr ''infinity'') \<and>
   has_type pool_quote_ex PoolQuote \<and>
   str_at pool_quote_ex ''collection'' \<and> num_at pool_quote_ex ''id'' \<and>
   str_at pool_quote_ex ''quote_price''"
proof -
  have t: "has_type nft_for_tokens_quote_ex NftForTokensQuote"
    "has_type nft_for_tokens_quote_ex TokensForNftQuote"
    "has_type pool_quote_ex PoolQuote"
    by (simp_all add: eval_defs)
  from quote_shapes [of nft_for_tokens_quote_ex] quote_shapes [of pool_quote_ex] t
  show ?thesis by simp
qed


section \<open>The message unions of the router\<close>

text \<open>
  A TypeScript union is inhabited by the values of either member, and an object type by
  every object that has its properties, whatever else the object has. So an object with
  both operation keys has the type of the first member and of the second, and with it the
  union type; the compiler accepts it even as a literal, since neither member has a
  property that the other could be discriminated by.

  Claim C7, as stated, does not hold: the two values below are an \<^verbatim>\<open>ExecuteMsg\<close>
  and a \<^verbatim>\<open>QueryMsg\<close>, and each carries both operation keys.
\<close>

theorem message_union_counterexample:
  "has_type execute_both ExecuteMsg \<and>
   field execute_both ''swap_nfts_for_tokens'' = Some sell_payload_ex \<and>
   field execute_both ''swap_tokens_for_nfts'' = Some buy_payload_ex \<and>
   has_type query_both QueryMsg \<and>
   field query_both ''nfts_for_tokens'' = Some query_payload_ex \<and>
   field query_both ''tokens_for_nfts'' = Some query_payload_ex"
  by (simp add: eval_defs)

text \<open>
  Claim C7, amended. Each member of \<^verbatim>\<open>ExecuteMsg\<close> and of \<^verbatim>\<open>QueryMsg\<close> declares
  exactly one operation key, and a value has the union type exactly when at least one of
  the two operation keys is present with a payload of that operation's shape: never zero.
  An object with a single key has the union type exactly when that key is one of the two
  operation keys and its payload has that operation's shape. The declarations do not
  exclude a value that carries both keys.
\<close>

theorem message_unions:
  "(has_type (j :: 'n json) ExecuteMsg \<longleftrightarrow>
      (\<exists>v. field j ''swap_nfts_for_tokens'' = Some v \<and> has_type v swap_nfts_for_tokens) \<or>
      (\<exists>v. field j ''swap_tokens_for_nfts'' = Some v \<and> has_type v swap_tokens_for_nfts)) \<and>
   (has_type j QueryMsg \<longleftrightarrow>
      (\<exists>v. field j ''nfts_for_tokens'' = Some v \<and> has_type v nfts_for_tokens) \<or>
      (\<exists>v. field j ''tokens_for_nfts'' = Some v \<and> has_type v tokens_for_nfts)) \<and>
   (has_type (JObj [(k, v :: 'n json)]) ExecuteMsg \<longleftrightarrow>
      k = ''swap_nfts_for_tokens'' \<and> has_type v swap_nfts_for_tokens \<or>
      k = ''swap_tokens_for_nfts'' \<and> has_type v swap_tokens_for_nfts) \<and>
   (has_type (JObj [(k, v)]) QueryMsg \<longleftrightarrow>
      k = ''nfts_for_tokens'' \<and> has_type v nfts_for_tokens \<or>
      k = ''tokens_for_nfts'' \<and> has_type v tokens_for_nfts) \<and>
   map declared_keys (members ExecuteMsg) =
     [[''swap_nfts_for_tokens''], [''swap_tokens_for_nfts'']] \<and>
   map declared_keys (members QueryMsg) = [[''nfts_for_tokens''], [''tokens_for_nfts'']]"
proof -
  have single: "has_type i (TObject [(k, Required, t)]) \<longleftrightarrow>
      (\<exists>v. field i k = Some v \<and> has_type v t)" for i :: "'n json" and k t
    by (cases i) (auto simp: has_type.simps split: option.splits)
  show ?thesis
    by (auto simp: ExecuteMsg_def QueryMsg_def has_type_TUnion_iff single)
qed

theorem message_unions_witness:
  "has_type execute_one ExecuteMsg \<and> has_type query_one QueryMsg \<and>
   \<not> has_type (JObj [] :: int json) ExecuteMsg \<and>
   \<not> has_type (JObj [] :: int json) QueryMsg"
proof -
  have p: "has_type sell_payload_ex swap_nfts_for_tokens"
    "has_type query_payload_ex tokens_for_nfts"
    by (simp_all add: eval_defs)
  have f: "field execute_one ''swap_nfts_for_tokens'' = Some sell_payload_ex"
    "field query_one ''tokens_for_nfts'' = Some query_payload_ex"
    by (simp_all add: execute_one_def query_one_def)
  from message_unions [of execute_one "''k''" JNull] message_unions [of query_one "''k''" JNull]
    message_unions [of "JObj [] :: int json" "''k''" JNull] p f
  show ?thesis by simp
qed

end
